theory Spec2Isabelle
  imports Main
begin

section \<open>Python values used by \<open>utils_execute.py\<close>\<close>

text \<open>
  Text is modelled as \<open>string\<close>, Python's unbounded integers as \<open>int\<close>.
  \<open>str_split_nl\<close> is \<open>code.split('\n')\<close>: it cuts at every line feed and always
  returns at least one piece.
\<close>

fun str_split_nl :: "string \<Rightarrow> string list" where
  "str_split_nl [] = [[]]"
| "str_split_nl (c # cs) =
     (if c = CHR 0x0A then [] # str_split_nl cs
      else (case str_split_nl cs of
              [] \<Rightarrow> [[c]]
            | l # ls \<Rightarrow> (c # l) # ls))"

text \<open>
  \<open>list_getitem xs i\<close> is the subscript \<open>xs[i]\<close>: an index below zero counts from the
  end, and an index outside both ranges raises IndexError (\<open>None\<close> here; the caller
  names the exception).
\<close>

definition list_getitem :: "'a list \<Rightarrow> int \<Rightarrow> 'a option" where
  "list_getitem xs i =
     (if 0 \<le> i \<and> i < int (length xs) then Some (xs ! nat i)
      else if i < 0 \<and> - int (length xs) \<le> i then Some (xs ! nat (int (length xs) + i))
      else None)"

definition digit_char :: "nat \<Rightarrow> char" where
  "digit_char d = ''0123456789'' ! d"

fun str_nat :: "nat \<Rightarrow> string" where
  "str_nat n = (if n < 10 then [digit_char n] else str_nat (n div 10) @ [digit_char (n mod 10)])"

declare str_nat.simps [simp del]

definition str_int :: "int \<Rightarrow> string" where
  "str_int i = (if i < 0 then CHR ''-'' # str_nat (nat (- i)) else str_nat (nat i))"

text \<open>
  \<open>"{}".format(x)\<close> for the line number, which is an integer or \<open>None\<close>.
\<close>

definition str_lineno :: "int option \<Rightarrow> string" where
  "str_lineno ln = (case ln of None \<Rightarrow> ''None'' | Some n \<Rightarrow> str_int n)"

text \<open>
  \<open>repr\<close> of a text and \<open>str\<close> of a list of texts, which is what
  \<open>print(result)\<close> writes. A character stands for the code point of its number, so a
  text is one of code points below 256; of these \<open>repr\<close> escapes the backslash, the
  quote in use and every code point that is not printable: those below 32, those from
  127 to 160, and 173.
\<close>

definition hex_digit :: "nat \<Rightarrow> char" where
  "hex_digit d = ''0123456789abcdef'' ! d"

definition repr_char :: "char \<Rightarrow> char \<Rightarrow> string" where
  "repr_char q c =
     (if c = CHR 0x5C then [CHR 0x5C, CHR 0x5C]
      else if c = q then [CHR 0x5C, q]
      else if c = CHR 0x0A then [CHR 0x5C, CHR ''n'']
      else if c = CHR 0x0D then [CHR 0x5C, CHR ''r'']
      else if c = CHR 0x09 then [CHR 0x5C, CHR ''t'']
      else if of_char c < (32::nat) \<or> ((127::nat) \<le> of_char c \<and> of_char c \<le> (160::nat))
              \<or> of_char c = (173::nat)
        then [CHR 0x5C, CHR ''x'', hex_digit (of_char c div 16), hex_digit (of_char c mod 16)]
      else [c])"

definition str_repr :: "string \<Rightarrow> string" where
  "str_repr s =
     (if CHR 0x27 \<in> set s \<and> CHR 0x22 \<notin> set s
      then CHR 0x22 # concat (map (repr_char (CHR 0x22)) s) @ [CHR 0x22]
      else CHR 0x27 # concat (map (repr_char (CHR 0x27)) s) @ [CHR 0x27])"

fun str_join :: "string \<Rightarrow> string list \<Rightarrow> string" where
  "str_join sep [] = []"
| "str_join sep [x] = x"
| "str_join sep (x # y # xs) = x @ sep @ str_join sep (y # xs)"

definition str_list :: "string list \<Rightarrow> string" where
  "str_list xs = ''['' @ str_join '', '' (map str_repr xs) @ '']''"

section \<open>Exceptions and the process state\<close>

text \<open>
  The worker tells three families of exception apart, by its two \<open>except\<close> clauses:
  \<^item> \<open>SyntaxErr cls args0 lineno\<close>: an instance of SyntaxError or of a subclass named
    \<open>cls\<close>; \<open>args0\<close> is \<open>None\<close> when \<open>e.args\<close> is empty and else says what
    formatting \<open>e.args[0]\<close> gives; \<open>lineno\<close> is \<open>e.lineno\<close> (an integer or Python's
    \<open>None\<close>);
  \<^item> \<open>ExceptionErr cls msg\<close>: any other instance of Exception, with its class name and
    what \<open>str(e)\<close> gives;
  \<^item> \<open>BaseErr cls\<close>: an instance of BaseException that is not an Exception
    (SystemExit, KeyboardInterrupt, GeneratorExit).
  Formatting an object and \<open>str(e)\<close> run a method that the program text may have
  written: they give a text (on the right) or raise an exception, of which the class
  name is kept (on the left).
\<close>

datatype pyerr =
    SyntaxErr string "(string + string) option" "int option"
  | ExceptionErr string "string + string"
  | BaseErr string

text \<open>
  What \<open>exec(code)\<close> does is decided by the interpreter, not by this module, so it is
  data here: it returns, or it raises an exception whose traceback ends in a frame at
  some line (\<open>traceback.extract_tb(tb)[-1][1]\<close>), or it is still running when the
  process is terminated from outside.
\<close>

datatype exec_outcome =
    Returned
  | Raised pyerr int
  | NoReturn

text \<open>
  The part of a process that the module reads or writes: the current directory, the
  directories and the files that exist, the attributes that no longer hold the
  library's function (\<open>disabled\<close>), the entries of \<open>sys.modules\<close> set to \<open>None\<close>,
  the environment, the resource limits, the fault handler, what \<open>platform.system()\<close>
  answers, whether the module runs as \<open>__main__\<close>, the three \<open>sys\<close> streams, the
  contents of the \<open>WriteOnlyStringIO\<close> objects created so far (by object number), and
  the text that has reached the real standard output and standard error.
  \<open>reliability_guard\<close> rebinds attributes to \<open>None\<close>, and a call of an attribute in
  \<open>disabled\<close> raises the TypeError that a call of \<open>None\<close> raises.
\<close>

datatype stream = RealStdin | RealStdout | RealStderr | Buffer nat

record proc =
  cwd :: string
  dirs :: "string list"
  files :: "string list"
  disabled :: "string set"
  blocked_modules :: "string set"
  environ :: "(string \<times> string) list"
  rlimits :: "(string \<times> nat) list"
  faulthandler_enabled :: bool
  platform_system :: string
  run_as_main :: bool
  sys_stdin :: stream
  sys_stdout :: stream
  sys_stderr :: stream
  buffers :: "string list"
  stdout_text :: string
  stderr_text :: string

text \<open>
  A program is what one text does when the worker runs it. \<open>exec(code)\<close> has no
  namespace arguments, so the text sees the local variables of \<open>unsafe_execute\<close> and
  can change the list \<open>result\<close>. From the list and the state of the process at the
  call a program gives how \<open>exec\<close> ends, the list and the state. The list and the state
  are those at the moment the worker makes its first append: what a method of the text
  does that a handler calls before (\<open>str(e)\<close>, formatting \<open>e.args[0]\<close>) is part of
  them. How \<open>exec\<close> ends is meant under the supervisor's timer: \<open>NoReturn\<close> stands for
  a text that the timer, or anything else, stops while it runs.
\<close>

type_synonym program = "string list \<Rightarrow> proc \<Rightarrow> exec_outcome \<times> string list \<times> proc"

text \<open>
  A process as the operating system starts it, on Linux, in \<open>/home/user\<close>, with the
  module imported.
\<close>

definition host_proc :: proc where
  "host_proc =
     \<lparr> cwd = ''/home/user'', dirs = [''/home/user'', ''/tmp''], files = [],
       disabled = {}, blocked_modules = {}, environ = [], rlimits = [],
       faulthandler_enabled = False, platform_system = ''Linux'', run_as_main = False,
       sys_stdin = RealStdin, sys_stdout = RealStdout, sys_stderr = RealStderr,
       buffers = [], stdout_text = [], stderr_text = [] \<rparr>"

section \<open>Operating-system calls that the module makes\<close>

text \<open>
  Paths are absolute; \<open>os.chdir\<close> needs its target to exist and \<open>os.getcwd\<close> needs
  the current directory to exist.
\<close>

definition none_not_callable :: pyerr where
  "none_not_callable =
     ExceptionErr ''TypeError''
       (Inr ([CHR 0x27] @ ''NoneType'' @ [CHR 0x27] @ '' object is not callable''))"


definition no_current_directory :: pyerr where
  "no_current_directory =
     ExceptionErr ''FileNotFoundError'' (Inr ''[Errno 2] No such file or directory'')"

definition os_getcwd :: "proc \<Rightarrow> pyerr + string" where
  "os_getcwd s =
     (if ''os.getcwd'' \<in> disabled s then Inl none_not_callable
      else if cwd s \<notin> set (dirs s) then Inl no_current_directory
      else Inr (cwd s))"







section \<open>The output suppressor: \<open>WriteOnlyStringIO\<close>, \<open>redirect_stdin\<close>, \<open>swallow_io\<close>\<close>

text \<open>
  \<open>WriteOnlyStringIO\<close> overrides \<open>read\<close>, \<open>readline\<close> and \<open>readlines\<close> to raise
  OSError and \<open>readable\<close> to answer \<open>False\<close>; \<open>write\<close> and \<open>getvalue\<close> are those of
  \<open>io.StringIO\<close>. The real standard input holds \<open>stdin_data\<close>, which a read consumes.
\<close>

datatype read_method = Read | Readline | Readlines


definition unsupported :: "string \<Rightarrow> pyerr" where
  "unsupported what = ExceptionErr ''UnsupportedOperation'' (Inr what)"






definition stream_write :: "stream \<Rightarrow> string \<Rightarrow> proc \<Rightarrow> pyerr + proc" where
  "stream_write st text s =
     (case st of
        Buffer i \<Rightarrow>
          (if i < length (buffers s) then Inr (s\<lparr>buffers := (buffers s)[i := buffers s ! i @ text]\<rparr>)
           else Inl (ExceptionErr ''ValueError'' (Inr ''I/O operation on closed file'')))
      | RealStdout \<Rightarrow> Inr (s\<lparr>stdout_text := stdout_text s @ text\<rparr>)
      | RealStderr \<Rightarrow> Inr (s\<lparr>stderr_text := stderr_text s @ text\<rparr>)
      | RealStdin \<Rightarrow> Inl (unsupported ''not writable''))"












section \<open>The working-directory sandbox: \<open>chdir\<close>, \<open>create_tempdir\<close>\<close>




section \<open>The capability restrictor: \<open>reliability_guard\<close>\<close>

text \<open>
  The attributes that \<open>reliability_guard\<close> rebinds to \<open>None\<close>, in its order: two
  before it writes the environment, those of \<open>os\<close> and \<open>shutil\<close> after it, then
  \<open>subprocess.Popen\<close>, and \<open>help\<close> last, through \<open>__builtins__\<close>.
\<close>

definition names_before_environ :: "string list" where
  "names_before_environ = [''builtins.exit'', ''builtins.quit'']"

definition names_after_environ :: "string list" where
  "names_after_environ =
     [''os.kill'', ''os.system'', ''os.putenv'', ''os.remove'', ''os.removedirs'', ''os.rmdir'',
      ''os.fchdir'', ''os.setuid'', ''os.fork'', ''os.forkpty'', ''os.killpg'', ''os.rename'',
      ''os.renames'', ''os.truncate'', ''os.replace'', ''os.unlink'', ''os.fchmod'',
      ''os.fchown'', ''os.chmod'', ''os.chown'', ''os.chroot'', ''os.lchflags'', ''os.lchmod'',
      ''os.lchown'', ''os.getcwd'', ''os.chdir'',
      ''shutil.rmtree'', ''shutil.move'', ''shutil.chown'']"

definition restricted_names :: "string list" where
  "restricted_names =
     names_before_environ @ names_after_environ @ [''subprocess.Popen'', ''builtins.help'']"

definition restricted_modules :: "string list" where
  "restricted_modules = [''ipdb'', ''joblib'', ''resource'', ''psutil'', ''tkinter'']"

definition disable :: "string list \<Rightarrow> proc \<Rightarrow> proc" where
  "disable names s = s\<lparr>disabled := disabled s \<union> set names\<rparr>"

definition set_limits :: "nat \<Rightarrow> proc \<Rightarrow> proc" where
  "set_limits maximum_memory_bytes s =
     s\<lparr>rlimits :=
         (if platform_system s \<noteq> ''Darwin'' then [(''RLIMIT_STACK'', maximum_memory_bytes)] else [])
         @ [(''RLIMIT_DATA'', maximum_memory_bytes), (''RLIMIT_AS'', maximum_memory_bytes)]
         @ rlimits s\<rparr>"

definition import_halted :: "string \<Rightarrow> pyerr" where
  "import_halted name =
     ExceptionErr ''ModuleNotFoundError''
       (Inr (''import of '' @ name @ '' halted; None in sys.modules''))"

text \<open>
  The first statement of \<open>reliability_guard\<close>. With a memory bound, off Windows, the
  module \<open>resource\<close> is imported, which raises when \<open>sys.modules["resource"]\<close> is
  \<open>None\<close>, and the limits are set; they are taken to be limits that the process may
  set.
\<close>

definition guard_limits :: "nat option \<Rightarrow> proc \<Rightarrow> pyerr + proc" where
  "guard_limits maximum_memory_bytes s =
     (case maximum_memory_bytes of
        None \<Rightarrow> Inr s
      | Some m \<Rightarrow>
          (if ''platform.system'' \<in> disabled s then Inl none_not_callable
           else if platform_system s = ''Windows'' then Inr s
           else if ''resource'' \<in> blocked_modules s then Inl (import_halted ''resource'')
           else if ''resource.setrlimit'' \<in> disabled s then Inl none_not_callable
           else Inr (set_limits m s)))"

definition no_item_assignment :: "string \<Rightarrow> pyerr" where
  "no_item_assignment type_name =
     ExceptionErr ''TypeError''
       (Inr ([CHR 0x27] @ type_name @ [CHR 0x27] @ '' object does not support item assignment''))"

text \<open>
  \<open>reliability_guard(maximum_memory_bytes)\<close>, statement by statement; a statement
  that raises leaves what the statements before it have done. An \<open>import\<close> raises
  when the entry of the module in \<open>sys.modules\<close> is \<open>None\<close>. Writing
  \<open>os.environ\<close> calls \<open>os.putenv\<close> (CPython from 3.9), so it raises TypeError when
  that is disabled, as it is after a first call of the guard. The assignment to
  \<open>__builtins__["help"]\<close> raises TypeError when the module runs as \<open>__main__\<close>,
  where \<open>__builtins__\<close> is a module and no dictionary.
\<close>

definition guard_tail :: "proc \<Rightarrow> (pyerr + unit) \<times> proc" where
  "guard_tail s =
     (if ''subprocess'' \<in> blocked_modules s then (Inl (import_halted ''subprocess''), s)
      else if run_as_main s
        then (Inl (no_item_assignment ''module''), disable [''subprocess.Popen''] s)
      else if ''sys'' \<in> blocked_modules s
        then (Inl (import_halted ''sys''), disable [''subprocess.Popen'', ''builtins.help''] s)
      else if ''sys.modules'' \<in> disabled s
        then (Inl (no_item_assignment ''NoneType''),
              disable [''subprocess.Popen'', ''builtins.help''] s)
      else
        (Inr (),
         disable [''subprocess.Popen'', ''builtins.help'']
           (s\<lparr>blocked_modules := blocked_modules s \<union> set restricted_modules\<rparr>)))"

definition reliability_guard :: "nat option \<Rightarrow> proc \<Rightarrow> (pyerr + unit) \<times> proc" where
  "reliability_guard maximum_memory_bytes s =
     (case guard_limits maximum_memory_bytes s of
        Inl e \<Rightarrow> (Inl e, s)
      | Inr s1 \<Rightarrow>
          (if ''faulthandler.disable'' \<in> disabled s1 then (Inl none_not_callable, s1)
           else if ''builtins'' \<in> blocked_modules s1
             then (Inl (import_halted ''builtins''), s1\<lparr>faulthandler_enabled := False\<rparr>)
           else if ''os.environ'' \<in> disabled s1
             then (Inl (no_item_assignment ''NoneType''),
                   disable names_before_environ (s1\<lparr>faulthandler_enabled := False\<rparr>))
           else if ''os.putenv'' \<in> disabled s1
             then (Inl none_not_callable,
                   disable names_before_environ (s1\<lparr>faulthandler_enabled := False\<rparr>))
           else
             guard_tail
               (disable (names_before_environ @ names_after_environ)
                  (s1\<lparr>faulthandler_enabled := False,
                      environ := (''OMP_NUM_THREADS'', ''1'') # environ s1\<rparr>))))"

text \<open>The state that a call of \<open>reliability_guard\<close> leaves when it returns, as a predicate.\<close>

definition restricted :: "proc \<Rightarrow> bool" where
  "restricted s \<longleftrightarrow>
     set restricted_names \<subseteq> disabled s \<and> set restricted_modules \<subseteq> blocked_modules s
     \<and> \<not> faulthandler_enabled s"

section \<open>The execution worker: \<open>unsafe_execute\<close>\<close>

definition failed_message :: "string \<Rightarrow> string \<Rightarrow> string \<Rightarrow> string" where
  "failed_message error_class line_number detail =
     ''failed: '' @ error_class @ '' at line '' @ line_number @ '': '' @ detail"

definition offending_line :: "string \<Rightarrow> string" where
  "offending_line l = ''Offending line: '' @ l"

text \<open>
  How a worker invocation ends: it returns, or an exception leaves \<open>unsafe_execute\<close>
  uncaught (its class name is kept), or the process is terminated while \<open>exec\<close> runs.
\<close>

datatype worker_exit = Finished | Uncaught string | Terminated

text \<open>
  \<open>handle_outcome\<close> is the body of \<open>unsafe_execute\<close> after \<open>exec(code)\<close>: one
  equation for each way the \<open>try\<close> statement is left; \<open>off\<close> is the set of disabled
  attributes at that moment. An exception raised inside a handler leaves
  \<open>unsafe_execute\<close> uncaught, with the list as it is then.

  In the clause for SyntaxError, \<open>e.args[0]\<close> raises IndexError on an empty \<open>args\<close>
  and formatting it may raise, both before anything is appended; \<open>line_number - 1\<close>
  raises TypeError when \<open>e.lineno\<close> is \<open>None\<close>, and the subscript raises IndexError
  out of range, both after the first append. There is no test of the range, so a
  subscript below zero counts from the end.

  In the clause for Exception, \<open>str(e)\<close> may raise, and \<open>str\<close>, \<open>sys.exc_info\<close>
  and \<open>traceback.extract_tb\<close> are called before the first append, \<open>len\<close> after it.
  The test is \<open>line_number <= len(code.split('\n'))\<close>, with no lower bound.
\<close>

fun handle_outcome ::
  "exec_outcome \<Rightarrow> string \<Rightarrow> string list \<Rightarrow> string set \<Rightarrow> worker_exit \<times> string list" where
  "handle_outcome Returned code result off = (Finished, result @ [''passed''])"
| "handle_outcome NoReturn code result off = (Terminated, result)"
| "handle_outcome (Raised (SyntaxErr error_class None line_number) tb) code result off =
     (Uncaught ''IndexError'', result)"
| "handle_outcome (Raised (SyntaxErr error_class (Some (Inl raised)) line_number) tb) code result off =
     (Uncaught raised, result)"
| "handle_outcome (Raised (SyntaxErr error_class (Some (Inr detail)) None) tb) code result off =
     (Uncaught ''TypeError'', result @ [failed_message error_class (str_lineno None) detail])"
| "handle_outcome (Raised (SyntaxErr error_class (Some (Inr detail)) (Some line_number)) tb) code result off =
     (case list_getitem (str_split_nl code) (line_number - 1) of
        None \<Rightarrow>
          (Uncaught ''IndexError'',
           result @ [failed_message error_class (str_lineno (Some line_number)) detail])
      | Some l \<Rightarrow>
          (Finished,
           result @ [failed_message error_class (str_lineno (Some line_number)) detail,
                     offending_line l]))"
| "handle_outcome (Raised (ExceptionErr error_class (Inl raised)) line_number) code result off =
     (if ''builtins.str'' \<in> off then (Uncaught ''TypeError'', result)
      else (Uncaught raised, result))"
| "handle_outcome (Raised (ExceptionErr error_class (Inr detail)) line_number) code result off =
     (if ''builtins.str'' \<in> off \<or> ''sys.exc_info'' \<in> off \<or> ''traceback.extract_tb'' \<in> off
      then (Uncaught ''TypeError'', result)
      else if ''builtins.len'' \<in> off
      then (Uncaught ''TypeError'',
            result @ [failed_message error_class (str_int line_number) detail])
      else if line_number \<le> int (length (str_split_nl code)) then
        (case list_getitem (str_split_nl code) (line_number - 1) of
           None \<Rightarrow>
             (Uncaught ''IndexError'',
              result @ [failed_message error_class (str_int line_number) detail])
         | Some l \<Rightarrow>
             (Finished,
              result @ [failed_message error_class (str_int line_number) detail,
                        offending_line l]))
      else (Finished, result @ [failed_message error_class (str_int line_number) detail]))"
| "handle_outcome (Raised (BaseErr cls) tb) code result off = (Uncaught cls, result)"

text \<open>
  \<open>unsafe_execute(code, result, timeout)\<close>. The call of \<open>exec\<close> is inside the
  \<open>try\<close>: with \<open>exec\<close> itself disabled the call raises TypeError in the frame of
  \<open>unsafe_execute\<close>, at line 129 of the module, and the text does not run. Otherwise
  the text runs on the list and in the state the worker was entered with. The worker
  itself touches only the list; \<open>timeout\<close> is not used by the body.
\<close>

definition unsafe_execute ::
  "program \<Rightarrow> string \<Rightarrow> string list \<Rightarrow> nat \<Rightarrow> proc \<Rightarrow> worker_exit \<times> string list \<times> proc" where
  "unsafe_execute exec code result timeout s =
     (if ''builtins.exec'' \<in> disabled s then
        (case handle_outcome (Raised none_not_callable 129) code result (disabled s) of
           (ex, result') \<Rightarrow> (ex, result', s))
      else
        (case exec result s of (out, result1, s') \<Rightarrow>
           (case handle_outcome out code result1 (disabled s') of
              (ex, result') \<Rightarrow> (ex, result', s'))))"

text \<open>
  The list and the state that the text leaves to the worker: those of entry when
  \<open>exec\<close> is disabled and the text does not run.
\<close>

definition text_leaves :: "program \<Rightarrow> string list \<Rightarrow> proc \<Rightarrow> string list \<times> proc" where
  "text_leaves exec result s =
     (if ''builtins.exec'' \<in> disabled s then (result, s) else snd (exec result s))"

section \<open>The supervisor: \<open>check_correctness\<close>\<close>

text \<open>
  The worker runs in a process of its own, started from a copy of the caller's state.
  After the join the caller has its own state again, but for what the two processes
  share: the real standard output and standard error and the file system. (What the
  process bootstrap itself writes to standard error for an uncaught exception is not
  followed.)
\<close>

definition after_join :: "proc \<Rightarrow> proc \<Rightarrow> proc" where
  "after_join s ws =
     s\<lparr>stdout_text := stdout_text ws, stderr_text := stderr_text ws,
       dirs := dirs ws, files := files ws\<rparr>"

text \<open>
  \<open>check_correctness(check_program, timeout)\<close> makes a manager and an empty managed
  list, starts \<open>unsafe_execute\<close> in a process of its own, arms a timer that terminates
  that process, and joins it; a text that does not return is terminated while \<open>exec\<close>
  runs (\<open>NoReturn\<close>). After the join the list gets \<open>"timed out"\<close> when it is empty,
  is printed, with a line feed, to what the caller's \<open>sys.stdout\<close> is bound to, and its
  first entry is compared with \<open>"passed"\<close>. The value is the returned boolean, or the
  exception that leaves \<open>check_correctness\<close>, then the list, then the caller's state.
\<close>

definition check_correctness ::
  "program \<Rightarrow> string \<Rightarrow> nat \<Rightarrow> proc \<Rightarrow> (pyerr + bool) \<times> string list \<times> proc" where
  "check_correctness exec check_program timeout s =
     (if ''multiprocessing.Manager'' \<in> disabled s \<or> ''multiprocessing.Process'' \<in> disabled s
         \<or> ''Timer'' \<in> disabled s
      then (Inl none_not_callable, [], s)
      else
        (case unsafe_execute exec check_program [] timeout s of (ex, joined, ws) \<Rightarrow>
           (let result = (if joined = [] then joined @ [''timed out''] else joined)
            in if ''builtins.print'' \<in> disabled s
               then (Inl none_not_callable, result, after_join s ws)
               else
                 (case stream_write (sys_stdout s) (str_list result @ [CHR 0x0A])
                         (after_join s ws) of
                    Inl e \<Rightarrow> (Inl e, result, after_join s ws)
                  | Inr s' \<Rightarrow> (Inr (list_getitem result 0 = Some ''passed''), result, s')))))"

section \<open>Name resolution under \<open>exec(code)\<close>\<close>

text \<open>
  \<open>unsafe_execute\<close> calls \<open>exec(code)\<close> with no namespace arguments from inside a
  function body, so the text runs with the module's globals as its globals and with
  the function's local variables as a separate local namespace. To see what that does to
  names, programs of a small fragment are interpreted: at top level a function
  definition without parameters, a call \<open>f()\<close> and \<open>pass\<close>; in a function body a call
  and \<open>pass\<close>.
\<close>

datatype bstmt = BCall string | BPass

datatype stmt = Def string bstmt "bstmt list" | Call string | Pass

text \<open>
  A name is bound to a function of the program (the line of the first statement of its
  body, and the body) or to an object from outside the program, which the fragment
  does not call.
\<close>

datatype binding = Func nat "bstmt list" | Foreign

type_synonym namespace = "(string \<times> binding) list"

definition builtin_names :: "string list" where
  "builtin_names =
     [''ArithmeticError'', ''AssertionError'', ''AttributeError'', ''BaseException'',
      ''BaseExceptionGroup'', ''BlockingIOError'', ''BrokenPipeError'', ''BufferError'',
      ''BytesWarning'', ''ChildProcessError'', ''ConnectionAbortedError'', ''ConnectionError'',
      ''ConnectionRefusedError'', ''ConnectionResetError'', ''DeprecationWarning'', ''EOFError'',
      ''Ellipsis'', ''EncodingWarning'', ''EnvironmentError'', ''Exception'', ''ExceptionGroup'',
      ''False'', ''FileExistsError'', ''FileNotFoundError'', ''FloatingPointError'',
      ''FutureWarning'', ''GeneratorExit'', ''IOError'', ''ImportError'', ''ImportWarning'',
      ''IndentationError'', ''IndexError'', ''InterruptedError'', ''IsADirectoryError'',
      ''KeyError'', ''KeyboardInterrupt'', ''LookupError'', ''MemoryError'',
      ''ModuleNotFoundError'', ''NameError'', ''None'', ''NotADirectoryError'', ''NotImplemented'',
      ''NotImplementedError'', ''OSError'', ''OverflowError'', ''PendingDeprecationWarning'',
      ''PermissionError'', ''ProcessLookupError'', ''PythonFinalizationError'', ''RecursionError'',
      ''ReferenceError'', ''ResourceWarning'', ''RuntimeError'', ''RuntimeWarning'',
      ''StopAsyncIteration'', ''StopIteration'', ''SyntaxError'', ''SyntaxWarning'',
      ''SystemError'', ''SystemExit'', ''TabError'', ''TimeoutError'', ''True'', ''TypeError'',
      ''UnboundLocalError'', ''UnicodeDecodeError'', ''UnicodeEncodeError'', ''UnicodeError'',
      ''UnicodeTranslateError'', ''UnicodeWarning'', ''UserWarning'', ''ValueError'', ''Warning'',
      ''ZeroDivisionError'', ''__build_class__'', ''__debug__'', ''__doc__'', ''__import__'',
      ''__loader__'', ''__name__'', ''__package__'', ''__spec__'', ''abs'', ''aiter'', ''all'',
      ''anext'', ''any'', ''ascii'', ''bin'', ''bool'', ''breakpoint'', ''bytearray'', ''bytes'',
      ''callable'', ''chr'', ''classmethod'', ''compile'', ''complex'', ''copyright'', ''credits'',
      ''delattr'', ''dict'', ''dir'', ''divmod'', ''enumerate'', ''eval'', ''exec'', ''exit'',
      ''filter'', ''float'', ''format'', ''frozenset'', ''getattr'', ''globals'', ''hasattr'',
      ''hash'', ''help'', ''hex'', ''id'', ''input'', ''int'', ''isinstance'', ''issubclass'',
      ''iter'', ''len'', ''license'', ''list'', ''locals'', ''map'', ''max'', ''memoryview'',
      ''min'', ''next'', ''object'', ''oct'', ''open'', ''ord'', ''pow'', ''print'', ''property'',
      ''quit'', ''range'', ''repr'', ''reversed'', ''round'', ''set'', ''setattr'', ''slice'',
      ''sorted'', ''staticmethod'', ''str'', ''sum'', ''super'', ''tuple'', ''type'', ''vars'',
      ''zip'']"

definition python_keywords :: "string list" where
  "python_keywords =
     [''False'', ''None'', ''True'', ''and'', ''as'', ''assert'', ''async'', ''await'', ''break'',
      ''class'', ''continue'', ''def'', ''del'', ''elif'', ''else'', ''except'', ''finally'',
      ''for'', ''from'', ''global'', ''if'', ''import'', ''in'', ''is'', ''lambda'', ''nonlocal'',
      ''not'', ''or'', ''pass'', ''raise'', ''return'', ''try'', ''while'', ''with'', ''yield'']"

definition name_start :: "char \<Rightarrow> bool" where
  "name_start c \<longleftrightarrow>
     c = CHR ''_'' \<or> (97 \<le> (of_char c :: nat) \<and> (of_char c :: nat) \<le> 122)
       \<or> (65 \<le> (of_char c :: nat) \<and> (of_char c :: nat) \<le> 90)"

definition name_char :: "char \<Rightarrow> bool" where
  "name_char c \<longleftrightarrow> name_start c \<or> (48 \<le> (of_char c :: nat) \<and> (of_char c :: nat) \<le> 57)"

definition is_identifier :: "string \<Rightarrow> bool" where
  "is_identifier f \<longleftrightarrow>
     (case f of [] \<Rightarrow> False | c # cs \<Rightarrow> name_start c \<and> list_all name_char cs)
     \<and> f \<notin> set python_keywords"

fun bstmt_names_ok :: "bstmt \<Rightarrow> bool" where
  "bstmt_names_ok (BCall f) = is_identifier f"
| "bstmt_names_ok BPass = True"

fun stmt_names_ok :: "stmt \<Rightarrow> bool" where
  "stmt_names_ok (Def f b bs) = (is_identifier f \<and> list_all bstmt_names_ok (b # bs))"
| "stmt_names_ok (Call f) = is_identifier f"
| "stmt_names_ok Pass = True"

text \<open>The program as text: one statement to the line, a body indented by four blanks.\<close>

fun render_bstmt :: "bstmt \<Rightarrow> string" where
  "render_bstmt (BCall f) = ''    '' @ f @ ''()''"
| "render_bstmt BPass = ''    pass''"

fun render_stmt :: "stmt \<Rightarrow> string list" where
  "render_stmt (Def f b bs) = (''def '' @ f @ ''():'') # map render_bstmt (b # bs)"
| "render_stmt (Call f) = [f @ ''()'']"
| "render_stmt Pass = [''pass'']"

definition render :: "stmt list \<Rightarrow> string" where
  "render prog = str_join [CHR 0x0A] (concat (map render_stmt prog))"

definition name_error :: "string \<Rightarrow> pyerr" where
  "name_error f =
     ExceptionErr ''NameError''
       (Inr (''name '' @ [CHR 0x27] @ f @ [CHR 0x27] @ '' is not defined''))"

text \<open>
  In a function body a name that the body does not assign is looked up in the globals
  the function was defined under, then in the builtins.
\<close>

definition load_global :: "namespace \<Rightarrow> string \<Rightarrow> binding option" where
  "load_global globals f =
     (case map_of globals f of
        Some b \<Rightarrow> Some b
      | None \<Rightarrow> (if f \<in> set builtin_names then Some Foreign else None))"

text \<open>
  Running a function body whose first statement is on line \<open>line\<close>. The result is
  \<open>None\<close> when the program leaves the fragment: it calls a foreign object, or its calls
  nest deeper than \<open>depth\<close>. A NameError is raised in the frame that looks the name up,
  which is the last frame of the traceback.
\<close>

fun exec_body :: "nat \<Rightarrow> namespace \<Rightarrow> nat \<Rightarrow> bstmt list \<Rightarrow> exec_outcome option" where
  "exec_body depth globals line [] = Some Returned"
| "exec_body depth globals line (BPass # rest) = exec_body depth globals (Suc line) rest"
| "exec_body depth globals line (BCall f # rest) =
     (case load_global globals f of
        None \<Rightarrow> Some (Raised (name_error f) (int line))
      | Some Foreign \<Rightarrow> None
      | Some (Func start body) \<Rightarrow>
          (if depth = 0 then None
           else (case exec_body (depth - 1) globals start body of
                   Some Returned \<Rightarrow> exec_body depth globals (Suc line) rest
                 | other \<Rightarrow> other)))"

text \<open>
  Top-level code stores into its local namespace and looks a name up there first, then
  in the globals, then in the builtins. In a module the two namespaces are one
  dictionary (\<open>Module\<close>); under \<open>exec\<close> in a function they are two (\<open>Separate\<close>,
  globals first).
\<close>

datatype scope = Module namespace | Separate namespace namespace

fun scope_globals :: "scope \<Rightarrow> namespace" where
  "scope_globals (Module g) = g"
| "scope_globals (Separate g l) = g"

fun store_name :: "scope \<Rightarrow> string \<Rightarrow> binding \<Rightarrow> scope" where
  "store_name (Module g) f b = Module ((f, b) # g)"
| "store_name (Separate g l) f b = Separate g ((f, b) # l)"

fun load_name :: "scope \<Rightarrow> string \<Rightarrow> binding option" where
  "load_name (Module g) f = load_global g f"
| "load_name (Separate g l) f =
     (case map_of l f of Some b \<Rightarrow> Some b | None \<Rightarrow> load_global g f)"

fun exec_top :: "nat \<Rightarrow> scope \<Rightarrow> nat \<Rightarrow> stmt list \<Rightarrow> exec_outcome option" where
  "exec_top depth sc line [] = Some Returned"
| "exec_top depth sc line (Pass # rest) = exec_top depth sc (Suc line) rest"
| "exec_top depth sc line (Def f b bs # rest) =
     exec_top depth (store_name sc f (Func (Suc line) (b # bs)))
       (Suc line + length (b # bs)) rest"
| "exec_top depth sc line (Call f # rest) =
     (case load_name sc f of
        None \<Rightarrow> Some (Raised (name_error f) (int line))
      | Some Foreign \<Rightarrow> None
      | Some (Func start body) \<Rightarrow>
          (if depth = 0 then None
           else (case exec_body (depth - 1) (scope_globals sc) start body of
                   Some Returned \<Rightarrow> exec_top depth sc (Suc line) rest
                 | other \<Rightarrow> other)))"

text \<open>
  The names bound at module level in \<open>utils_execute.py\<close> when it is imported, the local
  variables of \<open>unsafe_execute\<close> at the call of \<open>exec\<close>, and the names a fresh module
  starts with.
\<close>

definition fresh_module_names :: "string list" where
  "fresh_module_names =
     [''__name__'', ''__doc__'', ''__package__'', ''__loader__'', ''__spec__'', ''__builtins__'']"

definition module_global_names :: "string list" where
  "module_global_names =
     fresh_module_names @
     [''__file__'', ''__cached__'',
      ''contextlib'', ''faulthandler'', ''io'', ''multiprocessing'', ''os'', ''platform'',
      ''tempfile'', ''Timer'', ''traceback'', ''sys'', ''shutil'',
      ''TimeoutException'', ''WriteOnlyStringIO'', ''redirect_stdin'', ''create_tempdir'',
      ''chdir'', ''swallow_io'', ''reliability_guard'', ''unsafe_execute'', ''check_correctness'']"

definition worker_local_names :: "string list" where
  "worker_local_names = [''code'', ''result'', ''timeout'']"

definition foreign :: "string list \<Rightarrow> namespace" where
  "foreign names = map (\<lambda>n. (n, Foreign)) names"

definition max_depth :: nat where
  "max_depth = 500"

definition exec_in_worker :: "stmt list \<Rightarrow> exec_outcome option" where
  "exec_in_worker prog =
     (if list_all stmt_names_ok prog
      then exec_top max_depth (Separate (foreign module_global_names) (foreign worker_local_names)) 1 prog
      else None)"

definition exec_standalone :: "stmt list \<Rightarrow> exec_outcome option" where
  "exec_standalone prog =
     (if list_all stmt_names_ok prog
      then exec_top max_depth (Module (foreign fresh_module_names)) 1 prog
      else None)"

text \<open>
  The program of a text whose execution has a known outcome and no other effect: it
  leaves the list and the state as they are.
\<close>

definition ends_with :: "exec_outcome \<Rightarrow> program" where
  "ends_with out result s = (out, result, s)"

definition two_functions :: "stmt list" where
  "two_functions = [Def ''f'' (BCall ''g'') [], Def ''g'' BPass [], Call ''f'']"

section \<open>Programs used as examples\<close>



text \<open>
  \<open>calls_getcwd\<close> is \<^verbatim>\<open>import os\<close> followed by \<^verbatim>\<open>os.getcwd()\<close>: it
  calls one of the functions that \<open>reliability_guard\<close> rebinds and drops the value.
\<close>

definition calls_getcwd :: program where
  "calls_getcwd result s =
     (case os_getcwd s of
        Inl e \<Rightarrow> (Raised e 2, result, s)
      | Inr d \<Rightarrow> (Returned, result, s))"




section \<open>Facts about the helpers\<close>


lemma str_lineno_Some: "str_lineno (Some n) = str_int n"
  by (simp add: str_lineno_def)

lemma list_getitem_in_range:
  "0 \<le> i \<Longrightarrow> i < int (length xs) \<Longrightarrow> list_getitem xs i = Some (xs ! nat i)"
  by (simp add: list_getitem_def)

lemma list_getitem_beyond: "int (length xs) \<le> i \<Longrightarrow> list_getitem xs i = None"
  by (simp add: list_getitem_def)





text \<open>The example program of two functions: its text and its two executions.\<close>

lemma two_functions_names_ok: "list_all stmt_names_ok two_functions"
  by (simp add: two_functions_def is_identifier_def name_start_def name_char_def python_keywords_def)

lemma two_functions_text:
  "render two_functions
     = ''def f():'' @ [CHR 0x0A] @ ''    g()'' @ [CHR 0x0A] @ ''def g():'' @ [CHR 0x0A]
       @ ''    pass'' @ [CHR 0x0A] @ ''f()''"
  by (simp add: render_def two_functions_def)

lemma two_functions_lines:
  "str_split_nl (render two_functions) = [''def f():'', ''    g()'', ''def g():'', ''    pass'', ''f()'']"
  by (simp add: two_functions_text)

lemma two_functions_standalone: "exec_standalone two_functions = Some Returned"
  using two_functions_names_ok
  by (simp add: exec_standalone_def two_functions_def max_depth_def foreign_def
        fresh_module_names_def load_global_def)

lemma g_not_builtin: "''g'' \<notin> set builtin_names"
  by (simp add: builtin_names_def)

lemma two_functions_in_worker:
  "exec_in_worker two_functions = Some (Raised (name_error ''g'') 2)"
  using two_functions_names_ok g_not_builtin
  by (simp add: exec_in_worker_def two_functions_def max_depth_def foreign_def
        module_global_names_def fresh_module_names_def worker_local_names_def load_global_def)




text \<open>What \<open>unsafe_execute\<close> returns, by component.\<close>

lemma unsafe_execute_run:
  assumes "''builtins.exec'' \<notin> disabled s"
  shows "unsafe_execute exec code result timeout s
           = (fst (handle_outcome (fst (exec result s)) code (fst (snd (exec result s)))
                     (disabled (snd (snd (exec result s))))),
              snd (handle_outcome (fst (exec result s)) code (fst (snd (exec result s)))
                     (disabled (snd (snd (exec result s))))),
              snd (snd (exec result s)))"
  using assms by (simp add: unsafe_execute_def split: prod.splits)

lemma unsafe_execute_state:
  "snd (snd (unsafe_execute exec code result timeout s)) = snd (text_leaves exec result s)"
  by (simp add: unsafe_execute_def text_leaves_def split: prod.splits)




text \<open>
  What \<open>reliability_guard\<close> leaves when it returns, and the state of a process that has
  not called it.
\<close>

lemma guard_tail_restricts:
  assumes "fst (guard_tail s) = Inr ()"
    and "set (names_before_environ @ names_after_environ) \<subseteq> disabled s"
    and "\<not> faulthandler_enabled s"
  shows "restricted (snd (guard_tail s))"
  using assms
  by (simp add: guard_tail_def restricted_def disable_def restricted_names_def
        split: if_splits) blast

lemma reliability_guard_restricts:
  assumes "fst (reliability_guard m s) = Inr ()"
  shows "restricted (snd (reliability_guard m s))"
proof (cases "guard_limits m s")
  case (Inl e)
  with assms show ?thesis
    by (simp add: reliability_guard_def)
next
  case (Inr s1)
  define s2 where
    "s2 = disable (names_before_environ @ names_after_environ)
            (s1\<lparr>faulthandler_enabled := False,
                environ := (''OMP_NUM_THREADS'', ''1'') # environ s1\<rparr>)"
  from assms Inr have run: "reliability_guard m s = guard_tail s2"
    by (simp add: reliability_guard_def s2_def split: if_splits)
  have "restricted (snd (guard_tail s2))"
  proof (rule guard_tail_restricts)
    show "fst (guard_tail s2) = Inr ()"
      using assms run by simp
    show "set (names_before_environ @ names_after_environ) \<subseteq> disabled s2"
      by (simp add: s2_def disable_def le_supI2)
    show "\<not> faulthandler_enabled s2"
      by (simp add: s2_def disable_def)
  qed
  with run show ?thesis
    by simp
qed

lemma reliability_guard_host:
  "fst (reliability_guard None host_proc) = Inr ()
   \<and> ''os.getcwd'' \<in> disabled (snd (reliability_guard None host_proc))"
  by (simp add: reliability_guard_def guard_tail_def guard_limits_def host_proc_def disable_def
        names_before_environ_def names_after_environ_def)

lemma host_proc_not_restricted: "\<not> restricted host_proc"
  by (simp add: restricted_def host_proc_def restricted_names_def names_before_environ_def)

lemma calls_getcwd_under_guard:
  "fst (calls_getcwd [] (snd (reliability_guard None host_proc))) = Raised none_not_callable 2"
  using reliability_guard_host
  by (simp add: calls_getcwd_def os_getcwd_def)




section \<open>The capability restrictor in the worker\<close>

text \<open>
  Claim C1 says that \<open>unsafe_execute\<close> applies \<open>reliability_guard\<close> once, before any
  statement of the program text runs, and does not roll it back. The body of
  \<open>unsafe_execute\<close> does not call \<open>reliability_guard\<close>: in a fresh process a
  program that calls \<open>os.getcwd()\<close>, which the guard rebinds to \<open>None\<close>, passes
  instead of raising TypeError, and after the worker the restrictions are not in force.
\<close>

theorem unsafe_execute_not_restricted:
  "\<not> restricted
       (snd (snd (unsafe_execute calls_getcwd (''import os'' @ [CHR 0x0A] @ ''os.getcwd()'') [] 3
                    host_proc)))
   \<and> fst (snd (unsafe_execute calls_getcwd (''import os'' @ [CHR 0x0A] @ ''os.getcwd()'') [] 3
                    host_proc))
       = [''passed'']"
proof -
  have run: "calls_getcwd [] host_proc = (Returned, [], host_proc)"
    by (simp add: calls_getcwd_def os_getcwd_def host_proc_def)
  have on: "''builtins.exec'' \<notin> disabled host_proc"
    by (simp add: host_proc_def)
  show ?thesis
    using run host_proc_not_restricted by (simp add: unsafe_execute_run [OF on])
qed

text \<open>
  Claim C1, amended. For every program text, \<open>unsafe_execute\<close> applies the capability
  restrictor zero times: the text runs in the state the worker was entered in, and the
  state at the end of the invocation is the state the text left. So the restrictions
  are in force at the end exactly when they are in force in the state the text itself
  left, and after a text that changes nothing, all that \<open>reliability_guard\<close> would
  rebind, block, set or limit is as it was on entry, and from an entry state without
  the restrictions the worker ends without them.
\<close>

theorem unsafe_execute_applies_no_guard:
  "snd (snd (unsafe_execute exec code result timeout s)) = snd (text_leaves exec result s)
   \<and> restricted (snd (snd (unsafe_execute exec code result timeout s)))
       = restricted (snd (text_leaves exec result s))
   \<and> (snd (text_leaves exec result s) = s \<longrightarrow>
        disabled (snd (snd (unsafe_execute exec code result timeout s))) = disabled s
        \<and> blocked_modules (snd (snd (unsafe_execute exec code result timeout s))) = blocked_modules s
        \<and> faulthandler_enabled (snd (snd (unsafe_execute exec code result timeout s)))
            = faulthandler_enabled s
        \<and> environ (snd (snd (unsafe_execute exec code result timeout s))) = environ s
        \<and> rlimits (snd (snd (unsafe_execute exec code result timeout s))) = rlimits s)
   \<and> (\<not> restricted s \<and> snd (text_leaves exec result s) = s \<longrightarrow>
        \<not> restricted (snd (snd (unsafe_execute exec code result timeout s))))"
proof -
  have final: "snd (snd (unsafe_execute exec code result timeout s))
                 = snd (text_leaves exec result s)"
    by (rule unsafe_execute_state)
  then show ?thesis
    by simp
qed

theorem unsafe_execute_applies_no_guard_witness:
  "disabled (snd (snd (unsafe_execute (ends_with Returned) ''pass'' [] 3 host_proc))) = {}
   \<and> \<not> restricted (snd (snd (unsafe_execute (ends_with Returned) ''pass'' [] 3 host_proc)))"
proof -
  have same: "snd (text_leaves (ends_with Returned) [] host_proc) = host_proc"
    by (simp add: text_leaves_def ends_with_def)
  have none: "disabled host_proc = {}"
    by (simp add: host_proc_def)
  show ?thesis
    using unsafe_execute_applies_no_guard [of "ends_with Returned" "''pass''" "[]" 3 host_proc]
          same none host_proc_not_restricted
    by simp
qed

section \<open>The scopes around the untrusted code\<close>




section \<open>What the caller of \<open>check_correctness\<close> can observe\<close>




section \<open>The result channel\<close>




section \<open>The verdict of \<open>check_correctness\<close>\<close>




section \<open>The output suppressor\<close>




section \<open>The working-directory sandbox\<close>




section \<open>The offending line\<close>

text \<open>
  Claim C8. For every program text classified as failed, the offending line is in the
  result when the reported line number is within the text's line count and is left out
  when the number is outside. The code tests the number from above only, and only in
  the clause for Exception; nothing tests it from below, so for a number below 1 the
  subscript \<open>line_number - 1\<close> counts from the end of the text. Here the first line of
  a text of two lines raises a syntax error that reports line 0, which is outside the
  text: the worker reports the last line, \<open>x = 1\<close>, as the offending line.
\<close>

theorem offending_line_at_line_zero:
  "unsafe_execute
     (ends_with (Raised (SyntaxErr ''SyntaxError'' (Some (Inr ''bad'')) (Some 0)) 1))
     (''raise SyntaxError('bad', ('f', 0, 0, None))'' @ [CHR 0x0A] @ ''x = 1'') [] 3 host_proc
   = (Finished, [''failed: SyntaxError at line 0: bad'', ''Offending line: x = 1''], host_proc)"
proof -
  have on: "''builtins.exec'' \<notin> disabled host_proc"
    by (simp add: host_proc_def)
  show ?thesis
    by (simp add: unsafe_execute_run [OF on] ends_with_def list_getitem_def failed_message_def
          offending_line_def str_lineno_def str_int_def str_nat.simps digit_char_def)
qed

text \<open>
  For a line number from 1 on, both clauses do what the claim says, the clause for
  SyntaxError beyond the line count by raising IndexError out of the handler: with a
  text that leaves the list as it is and, in the clause for Exception, gives a text for
  \<open>str(e)\<close> and leaves the functions that the handler calls in place.
\<close>

lemma offending_line_from_line_one:
  assumes "''builtins.exec'' \<notin> disabled s"
    and "exec result s = (Raised (SyntaxErr c (Some (Inr d)) (Some n)) tb, l, s')
         \<or> (exec result s = (Raised (ExceptionErr c (Inr d)) n, l, s') \<and> disabled s' = {})"
    and "1 \<le> n"
  shows "fst (snd (unsafe_execute exec code result timeout s))
           = (if n \<le> int (length (str_split_nl code))
              then l @ [failed_message c (str_int n) d,
                        offending_line (str_split_nl code ! nat (n - 1))]
              else l @ [failed_message c (str_int n) d])"
proof (cases "n \<le> int (length (str_split_nl code))")
  case True
  with assms(3) have "list_getitem (str_split_nl code) (n - 1)
                        = Some (str_split_nl code ! nat (n - 1))"
    by (intro list_getitem_in_range) auto
  with True assms(1,2) show ?thesis
    by (auto simp: unsafe_execute_run str_lineno_Some)
next
  case False
  then have "list_getitem (str_split_nl code) (n - 1) = None"
    by (intro list_getitem_beyond) auto
  with False assms(1,2) show ?thesis
    by (auto simp: unsafe_execute_run str_lineno_Some)
qed

section \<open>Which failures the worker catches\<close>




section \<open>The namespaces of \<open>exec\<close>\<close>

text \<open>
  Claim C10. \<open>unsafe_execute\<close> runs the program text by \<open>exec\<close> on the namespaces of
  the enclosing function, not on a fresh module namespace; so there is a valid program
  text that passes as a program of its own and fails in the worker. The text is
  \<open>two_functions\<close>: \<open>f\<close> is defined with the body \<open>g()\<close>, then \<open>g\<close> is defined, then
  \<open>f()\<close> is called. In a module, \<open>g\<close> is found among the globals. In the worker both
  definitions are stored in the local namespace, the body of \<open>f\<close> looks \<open>g\<close> up in the
  module's globals and the builtins, and the call raises NameError in line 2, which the
  worker classifies as failed.
\<close>

theorem exec_in_function_namespace:
  "list_all stmt_names_ok two_functions
   \<and> render two_functions
       = ''def f():'' @ [CHR 0x0A] @ ''    g()'' @ [CHR 0x0A] @ ''def g():'' @ [CHR 0x0A]
         @ ''    pass'' @ [CHR 0x0A] @ ''f()''
   \<and> exec_standalone two_functions = Some Returned
   \<and> exec_in_worker two_functions = Some (Raised (name_error ''g'') 2)
   \<and> unsafe_execute (ends_with (Raised (name_error ''g'') 2)) (render two_functions) [] 3 host_proc
       = (Finished,
          [''failed: NameError at line 2: name 'g' is not defined'', ''Offending line:     g()''],
          host_proc)
   \<and> fst (check_correctness (ends_with (Raised (name_error ''g'') 2)) (render two_functions) 3 host_proc)
       = Inr False"
proof (intro conjI)
  show "unsafe_execute (ends_with (Raised (name_error ''g'') 2)) (render two_functions) [] 3 host_proc
       = (Finished,
          [''failed: NameError at line 2: name 'g' is not defined'', ''Offending line:     g()''],
          host_proc)"
    by (simp add: unsafe_execute_def ends_with_def name_error_def two_functions_lines
          list_getitem_def failed_message_def offending_line_def str_int_def str_nat.simps
          digit_char_def)
       (simp add: host_proc_def)
  show "fst (check_correctness (ends_with (Raised (name_error ''g'') 2)) (render two_functions) 3 host_proc)
       = Inr False"
    by (simp add: check_correctness_def unsafe_execute_def ends_with_def name_error_def
          two_functions_lines list_getitem_def failed_message_def Let_def host_proc_def
          stream_write_def after_join_def)
qed (rule two_functions_names_ok two_functions_text two_functions_standalone two_functions_in_worker)+

end
